theory Spec2Isabelle
  imports Complex_Main "HOL-Library.AList" "HOL-Library.Char_ord" "HOL-Library.List_Lexorder"
begin

section \<open>Python values shared by the modules\<close>

text \<open>
  The exceptions the modelled methods can raise. A method that can raise returns
  \<open>py_error + 'a\<close>, with \<open>Inl\<close> for the exception.
\<close>

datatype py_error = NameError | TypeError | ValueError

text \<open>
  \<open>xs[-n:]\<close> for a positive \<open>n\<close>: the last \<open>n\<close> elements, the whole list when it has
  at most \<open>n\<close>. The subtraction is on \<open>nat\<close> and stops at zero, which is the short-list case.
\<close>

definition last_n :: "nat \<Rightarrow> 'a list \<Rightarrow> 'a list" where
  "last_n n xs = drop (length xs - n) xs"

text \<open>
  \<open>list.sort(key=f, reverse=True)\<close>: Python sorts stably and keeps the original order
  of elements with equal keys also under \<open>reverse=True\<close>; \<open>sort_key\<close> is a stable
  insertion sort, so reversing before and after gives exactly that order.
\<close>

definition sort_desc :: "('a \<Rightarrow> 'k::linorder) \<Rightarrow> 'a list \<Rightarrow> 'a list" where
  "sort_desc f xs = rev (sort_key f (rev xs))"

text \<open>\<open>str(n)\<close> of an integer: decimal digits, a minus sign for a negative number.\<close>

fun str_nat :: "nat \<Rightarrow> string" where
  "str_nat n =
     (if n < 10 then [''0123456789'' ! n]
      else str_nat (n div 10) @ [''0123456789'' ! (n mod 10)])"

declare str_nat.simps [simp del]

definition str_int :: "int \<Rightarrow> string" where
  "str_int i = (if i < 0 then CHR ''-'' # str_nat (nat (- i)) else str_nat (nat i))"

text \<open>\<open>int(x)\<close> of a float: truncation towards zero.\<close>

definition py_int :: "real \<Rightarrow> int" where
  "py_int x = (if x < 0 then \<lceil>x\<rceil> else \<lfloor>x\<rfloor>)"

text \<open>\<open>sep.join(xs)\<close>.\<close>

fun join :: "string \<Rightarrow> string list \<Rightarrow> string" where
  "join sep [] = []"
| "join sep [x] = x"
| "join sep (x # y # ys) = x @ sep @ join sep (y # ys)"

text \<open>\<open>sub in s\<close> on strings: \<open>sub\<close> occurs in \<open>s\<close> as a contiguous run.\<close>

fun starts_with :: "string \<Rightarrow> string \<Rightarrow> bool" where
  "starts_with s [] = True"
| "starts_with [] (p # ps) = False"
| "starts_with (c # cs) (p # ps) = (c = p \<and> starts_with cs ps)"

fun contains :: "string \<Rightarrow> string \<Rightarrow> bool" where
  "contains [] sub = (sub = [])"
| "contains (c # cs) sub = (starts_with (c # cs) sub \<or> contains cs sub)"


section \<open>utils/historical\_analyzer.py: the event history store\<close>

text \<open>
  The values of an event's \<open>data\<close> mapping are JSON values (the store is written and
  read with \<open>json\<close>); floats are left out. Lists and objects are unhashable in Python.
\<close>

datatype jval =
    JNull
  | JBool bool
  | JNum int
  | JStr string
  | JArr "jval list"
  | JObj "(string \<times> jval) list"

fun hashable :: "jval \<Rightarrow> bool" where
  "hashable (JArr _) = False"
| "hashable (JObj _) = False"
| "hashable _ = True"

text \<open>
  Equality of two hashable values as dictionary keys: \<open>True == 1\<close> and \<open>False == 0\<close>
  in Python, everything else is equal to itself only.
\<close>

fun key_norm :: "jval \<Rightarrow> jval" where
  "key_norm (JBool b) = JNum (if b then 1 else 0)"
| "key_norm v = v"

definition key_eq :: "jval \<Rightarrow> jval \<Rightarrow> bool" where
  "key_eq a b = (key_norm a = key_norm b)"

text \<open>
  An event is the dictionary \<open>{'type': .., 'timestamp': .., 'data': ..}\<close> that
  \<open>record_job_event\<close> builds.
\<close>

record event =
  ev_type :: string
  ev_timestamp :: string
  ev_data :: "(string \<times> jval) list"

text \<open>
  \<open>self.history\<close>: a dictionary from job id to the list of the job's events. Python
  dictionaries iterate in insertion order and \<open>get_analytics\<close> iterates, so the store is
  an association list; \<open>AList.update\<close> replaces the value of a key in place and puts a
  new key last, as assignment to a dictionary does. A dictionary has each key once; the
  operations below keep it so, and lookups read the first entry of a key.
\<close>

type_synonym history = "(string \<times> event list) list"

text \<open>\<open>d.get(k, default)\<close> on a dictionary kept as an association list.\<close>

definition dict_get :: "('k \<times> 'v) list \<Rightarrow> 'k \<Rightarrow> 'v \<Rightarrow> 'v" where
  "dict_get d k dflt = (case map_of d k of None \<Rightarrow> dflt | Some v \<Rightarrow> v)"

text \<open>
  \<open>record_job_event(job_id, event_type, timestamp=None, data=None)\<close>. \<open>now\<close> is the
  reading of \<open>datetime.now().isoformat()\<close>, used when \<open>timestamp\<close> is \<open>None\<close> or the
  empty string (\<open>timestamp or ..\<close>); \<open>data or {}\<close> likewise. \<open>save_history\<close> catches
  every exception of its own and does not touch \<open>self.history\<close>.
\<close>

definition make_event ::
  "string \<Rightarrow> string \<Rightarrow> string option \<Rightarrow> (string \<times> jval) list option \<Rightarrow> event"
where
  "make_event now event_type timestamp data =
     \<lparr> ev_type = event_type,
       ev_timestamp = (case timestamp of None \<Rightarrow> now | Some t \<Rightarrow> if t = [] then now else t),
       ev_data = (case data of None \<Rightarrow> [] | Some d \<Rightarrow> d) \<rparr>"

definition record_job_event ::
  "string \<Rightarrow> history \<Rightarrow> string \<Rightarrow> string \<Rightarrow> string option \<Rightarrow> (string \<times> jval) list option \<Rightarrow> history"
where
  "record_job_event now h job_id event_type timestamp data =
     (let h1 = (if map_of h job_id = None then AList.update job_id [] h else h);
          event = make_event now event_type timestamp data
      in AList.update job_id (dict_get h1 job_id [] @ [event]) h1)"

text \<open>\<open>get_job_timeline(job_id)\<close>: \<open>self.history.get(job_id, [])\<close>.\<close>

definition get_job_timeline :: "history \<Rightarrow> string \<Rightarrow> event list" where
  "get_job_timeline h job_id = dict_get h job_id []"


subsection \<open>get\_analytics\<close>

record activity =
  act_job_id :: string
  act_last_event :: string
  act_timestamp :: string

record analytics =
  total_jobs :: nat
  jobs_by_status :: "(jval \<times> nat) list"
  jobs_by_backend :: "(jval \<times> nat) list"
  average_queue_time :: real
  success_rate :: real
  recent_activity :: "activity list"

text \<open>
  The state of the loop of \<open>get_analytics\<close>: the \<open>analytics\<close> dictionary and the two
  local counters.
\<close>

record agg =
  agg_analytics :: analytics
  completed_jobs :: nat
  total_queue_time :: real

text \<open>
  \<open>d[k] = d.get(k, 0) + 1\<close> on a dictionary of counters: the first key equal to \<open>k\<close>
  is incremented, a new key is put last; an unhashable key raises \<open>TypeError\<close>.
\<close>

fun bump :: "jval \<Rightarrow> (jval \<times> nat) list \<Rightarrow> (jval \<times> nat) list" where
  "bump k [] = [(k, 1)]"
| "bump k ((k', n) # kvs) =
     (if key_eq k k' then (k', n + 1) # kvs else (k', n) # bump k kvs)"

definition count_key :: "jval \<Rightarrow> (jval \<times> nat) list \<Rightarrow> py_error + (jval \<times> nat) list" where
  "count_key k d = (if hashable k then Inr (bump k d) else Inl TypeError)"

text \<open>Lines 74 to 80: the latest status of the job.\<close>

definition count_status :: "event list \<Rightarrow> agg \<Rightarrow> py_error + agg" where
  "count_status events a =
     (let status_events = filter (\<lambda>e. ev_type e = ''status_change'') events in
      if status_events = [] then Inr a
      else
        let latest_status = dict_get (ev_data (last status_events)) ''status'' (JStr ''unknown'') in
        case count_key latest_status (jobs_by_status (agg_analytics a)) of
          Inl err \<Rightarrow> Inl err
        | Inr d \<Rightarrow>
            Inr (a\<lparr> agg_analytics := (agg_analytics a)\<lparr> jobs_by_status := d \<rparr>,
                    completed_jobs :=
                      (if latest_status = JStr ''COMPLETED'' then completed_jobs a + 1
                       else completed_jobs a) \<rparr>))"

text \<open>Lines 83 to 86: the backend of the job.\<close>

definition count_backend :: "event list \<Rightarrow> agg \<Rightarrow> py_error + agg" where
  "count_backend events a =
     (let backend_events = filter (\<lambda>e. ev_type e = ''backend_assigned'') events in
      if backend_events = [] then Inr a
      else
        let backend = dict_get (ev_data (hd backend_events)) ''backend'' (JStr ''unknown'') in
        case count_key backend (jobs_by_backend (agg_analytics a)) of
          Inl err \<Rightarrow> Inl err
        | Inr d \<Rightarrow> Inr (a\<lparr> agg_analytics := (agg_analytics a)\<lparr> jobs_by_backend := d \<rparr> \<rparr>))"

text \<open>
  Lines 89 to 95: the queue time of the job. \<open>iso_gap a b\<close> stands for the datetime
  library, \<open>(datetime.fromisoformat(a) - datetime.fromisoformat(b)).total_seconds()\<close>,
  which raises on a string that is no ISO timestamp.
\<close>

definition add_queue_time ::
  "(string \<Rightarrow> string \<Rightarrow> py_error + real) \<Rightarrow> event list \<Rightarrow> agg \<Rightarrow> py_error + agg"
where
  "add_queue_time iso_gap events a =
     (let queue_events = filter (\<lambda>e. ev_type e = ''queued'') events;
          start_events = filter (\<lambda>e. ev_type e = ''running'') events in
      if queue_events \<noteq> [] \<and> start_events \<noteq> [] then
        (case iso_gap (ev_timestamp (hd start_events)) (ev_timestamp (hd queue_events)) of
           Inl err \<Rightarrow> Inl err
         | Inr queue_time \<Rightarrow> Inr (a\<lparr> total_queue_time := total_queue_time a + queue_time \<rparr>))
      else Inr a)"

text \<open>Lines 98 to 103: the entry of the job in the recent activity.\<close>

definition add_activity :: "string \<Rightarrow> event list \<Rightarrow> agg \<Rightarrow> agg" where
  "add_activity job_id events a =
     (if events \<noteq> [] then
        a\<lparr> agg_analytics := (agg_analytics a)\<lparr> recent_activity :=
             recent_activity (agg_analytics a) @
               [\<lparr> act_job_id = job_id,
                   act_last_event = ev_type (last events),
                   act_timestamp = ev_timestamp (last events) \<rparr>] \<rparr> \<rparr>
      else a)"

text \<open>
  One iteration of the loop over \<open>self.history.items()\<close>. With a non-empty \<open>user_id\<close>
  a job none of whose events carries that \<open>user_id\<close> in its data is skipped.
\<close>

definition job_step ::
  "(string \<Rightarrow> string \<Rightarrow> py_error + real) \<Rightarrow> string option \<Rightarrow> agg \<Rightarrow> string \<times> event list
     \<Rightarrow> py_error + agg"
where
  "job_step iso_gap user_id a job =
     (let job_id = fst job; events = snd job;
          skip = (case user_id of
                    None \<Rightarrow> False
                  | Some u \<Rightarrow> u \<noteq> [] \<and>
                      filter (\<lambda>e. map_of (ev_data e) ''user_id'' = Some (JStr u)) events = [])
      in if skip then Inr a
         else case count_status events a of
                Inl err \<Rightarrow> Inl err
              | Inr a1 \<Rightarrow>
                  (case count_backend events a1 of
                     Inl err \<Rightarrow> Inl err
                   | Inr a2 \<Rightarrow>
                       (case add_queue_time iso_gap events a2 of
                          Inl err \<Rightarrow> Inl err
                        | Inr a3 \<Rightarrow> Inr (add_activity job_id events a3))))"

fun analytics_loop ::
  "(string \<Rightarrow> string \<Rightarrow> py_error + real) \<Rightarrow> string option \<Rightarrow> agg \<Rightarrow> history \<Rightarrow> py_error + agg"
where
  "analytics_loop iso_gap user_id a [] = Inr a"
| "analytics_loop iso_gap user_id a (job # jobs) =
     (case job_step iso_gap user_id a job of
        Inl err \<Rightarrow> Inl err
      | Inr a' \<Rightarrow> analytics_loop iso_gap user_id a' jobs)"

text \<open>
  \<open>get_analytics(user_id=None)\<close>. After the loop, line 106 tests \<open>completed_jobs > 0\<close>;
  in that branch line 107 stores the success rate and line 108 evaluates
  \<open>total_queue_time / completed_jobs if completed_jops > 0 else 0\<close>, whose condition reads
  the name \<open>completed_jops\<close> that is bound nowhere: Python raises \<open>NameError\<close> and the
  method returns nothing. Only with no completed job are lines 111 to 114 reached, with
  both averages still 0.
\<close>

definition get_analytics ::
  "(string \<Rightarrow> string \<Rightarrow> py_error + real) \<Rightarrow> history \<Rightarrow> string option \<Rightarrow> py_error + analytics"
where
  "get_analytics iso_gap h user_id =
     (let analytics0 = \<lparr> total_jobs = length h, jobs_by_status = [], jobs_by_backend = [],
                          average_queue_time = 0, success_rate = 0, recent_activity = [] \<rparr>;
          a0 = \<lparr> agg_analytics = analytics0, completed_jobs = 0, total_queue_time = 0 \<rparr>
      in case analytics_loop iso_gap user_id a0 h of
           Inl err \<Rightarrow> Inl err
         | Inr a \<Rightarrow>
             if completed_jobs a > 0 then Inl NameError
             else Inr ((agg_analytics a)\<lparr> recent_activity :=
                         take 10 (sort_desc act_timestamp (recent_activity (agg_analytics a))) \<rparr>))"

subsection \<open>Sequences of calls on the store\<close>

text \<open>
  The public methods of \<open>HistoricalAnalyzer\<close> as calls, and what each does to
  \<open>self.history\<close>: only \<open>record_job_event\<close> assigns to it; \<open>get_job_timeline\<close> and
  \<open>get_analytics\<close> read it, whether they return or raise.
\<close>

datatype analyzer_call =
    RecordJobEvent string string string "string option" "(string \<times> jval) list option"
  | GetJobTimeline string
  | GetAnalytics "string option"

fun analyzer_step :: "history \<Rightarrow> analyzer_call \<Rightarrow> history" where
  "analyzer_step h (RecordJobEvent now job_id event_type timestamp data) =
     record_job_event now h job_id event_type timestamp data"
| "analyzer_step h (GetJobTimeline job_id) = h"
| "analyzer_step h (GetAnalytics user_id) = h"

definition run_calls :: "history \<Rightarrow> analyzer_call list \<Rightarrow> history" where
  "run_calls h calls = foldl analyzer_step h calls"

text \<open>
  The events that the \<open>record_job_event\<close> calls of a sequence were given for one job,
  in the order of the calls.
\<close>

fun recorded_events :: "string \<Rightarrow> analyzer_call list \<Rightarrow> event list" where
  "recorded_events j [] = []"
| "recorded_events j (RecordJobEvent now job_id event_type timestamp data # calls) =
     (if job_id = j then make_event now event_type timestamp data # recorded_events j calls
      else recorded_events j calls)"
| "recorded_events j (_ # calls) = recorded_events j calls"


section \<open>Values of a backend status snapshot\<close>

text \<open>
  The fields of a snapshot entry, and the queue length handed to the predictor, are what
  the fetcher stores: an integer, a boolean, a string such as \<open>"Unknown"\<close>, or
  \<open>None\<close>.
\<close>

datatype pyval = PNone | PBool bool | PInt int | PStr string

text \<open>
  \<open>isinstance(v, int)\<close> holds for integers and for booleans (\<open>bool\<close> is a subclass of
  \<open>int\<close>, \<open>True\<close> is 1); \<open>as_int\<close> gives the integer, \<open>None\<close> for the other values.
\<close>

fun as_int :: "pyval \<Rightarrow> int option" where
  "as_int (PInt n) = Some n"
| "as_int (PBool b) = Some (if b then 1 else 0)"
| "as_int _ = None"

text \<open>The truth value of \<open>if v:\<close>.\<close>

fun truthy :: "pyval \<Rightarrow> bool" where
  "truthy PNone = False"
| "truthy (PBool b) = b"
| "truthy (PInt n) = (n \<noteq> 0)"
| "truthy (PStr s) = (s \<noteq> [])"


section \<open>utils/queue\_predictor.py\<close>

text \<open>
  One entry of \<open>self.history[backend_name]\<close>. Times are seconds; Python's floats are
  taken as exact real numbers.
\<close>

record sample =
  s_timestamp :: string
  s_job_id :: string
  queue_time :: real
  run_time :: real

type_synonym queue_history = "(string \<times> sample list) list"

text \<open>
  \<open>record_job_completion(job_id, backend_name, queue_time, run_time)\<close>; \<open>now\<close> is the
  reading of \<open>datetime.now().isoformat()\<close>.
\<close>

definition record_job_completion ::
  "string \<Rightarrow> queue_history \<Rightarrow> string \<Rightarrow> string \<Rightarrow> real \<Rightarrow> real \<Rightarrow> queue_history"
where
  "record_job_completion now h job_id backend_name qt rt =
     (let h1 = (if map_of h backend_name = None then AList.update backend_name [] h else h);
          entries = dict_get h1 backend_name [] @
                      [\<lparr> s_timestamp = now, s_job_id = job_id, queue_time = qt, run_time = rt \<rparr>];
          h2 = AList.update backend_name entries h1
      in if length entries > 1000 then AList.update backend_name (last_n 1000 entries) h2
         else h2)"


text \<open>\<open>estimate_average_wait(backend_name)\<close>.\<close>

definition estimate_average_wait :: "queue_history \<Rightarrow> string \<Rightarrow> string" where
  "estimate_average_wait h backend_name =
     (case map_of h backend_name of
        None \<Rightarrow> ''Unknown''
      | Some entries \<Rightarrow>
          if entries = [] then ''Unknown''
          else
            let queue_times = map queue_time (filter (\<lambda>entry. queue_time entry > 0) entries) in
            if queue_times = [] then ''Unknown''
            else
              let avg_queue_time = sum_list queue_times / real (length queue_times) in
              if avg_queue_time < 60 then str_int (py_int avg_queue_time) @ '' seconds''
              else if avg_queue_time < 3600 then str_int (py_int (avg_queue_time / 60)) @ '' minutes''
              else str_int (py_int (avg_queue_time / 3600)) @ '' hours'')"

text \<open>A sequence of \<open>record_job_completion\<close> calls, each with its clock reading.\<close>

record completion =
  c_now :: string
  c_job_id :: string
  c_backend :: string
  c_queue_time :: real
  c_run_time :: real

definition record_all :: "queue_history \<Rightarrow> completion list \<Rightarrow> queue_history" where
  "record_all h cs =
     foldl (\<lambda>h c. record_job_completion (c_now c) h (c_job_id c) (c_backend c)
                     (c_queue_time c) (c_run_time c)) h cs"

text \<open>The samples that the calls of a sequence give for one backend, in call order.\<close>

definition samples_for :: "string \<Rightarrow> completion list \<Rightarrow> sample list" where
  "samples_for b cs =
     map (\<lambda>c. \<lparr> s_timestamp = c_now c, s_job_id = c_job_id c,
                 queue_time = c_queue_time c, run_time = c_run_time c \<rparr>)
       (filter (\<lambda>c. c_backend c = b) cs)"



section \<open>utils/backend\_recommender.py\<close>

type_synonym backend_info = "(string \<times> pyval) list"

text \<open>
  \<open>calculate_backend_score(backend_name, backend_info)\<close>. With a queue length that is a
  string, \<open>queue_length * 2\<close> is a string and \<open>min\<close> of it and 50 raises \<open>TypeError\<close>;
  \<open>None * 2\<close> raises \<open>TypeError\<close> too. \<open>qubits / 5\<close> is true division.
\<close>

definition calculate_backend_score :: "string \<Rightarrow> backend_info \<Rightarrow> py_error + real" where
  "calculate_backend_score backend_name backend_info =
     (case as_int (dict_get backend_info ''pending_jobs'' (PInt 0)) of
        None \<Rightarrow> Inl TypeError
      | Some queue_length \<Rightarrow>
          let score1 = 100 - real_of_int (min (queue_length * 2) 50);
              score2 = (if truthy (dict_get backend_info ''simulator'' (PBool False))
                        then score1 + 10 else score1);
              qubits = dict_get backend_info ''qubits'' (PInt 0);
              score3 = (case as_int qubits of
                          Some q \<Rightarrow> score2 + min (real_of_int q / 5) 20
                        | None \<Rightarrow> score2)
          in Inr (max 0 (min score3 100)))"

text \<open>
  \<open>get_recommendation_reason(backend_name, backend_info, score)\<close>. A queue length that
  is a string or \<open>None\<close> is not equal to 0, and \<open>queue_length < 5\<close> then raises
  \<open>TypeError\<close>. Only an integer of at least 5 reaches the formatted text.
\<close>

definition get_recommendation_reason :: "string \<Rightarrow> backend_info \<Rightarrow> real \<Rightarrow> py_error + string" where
  "get_recommendation_reason backend_name backend_info score =
     (case as_int (dict_get backend_info ''pending_jobs'' (PInt 0)) of
        None \<Rightarrow> Inl TypeError
      | Some queue_length \<Rightarrow>
          let reasons1 = (if queue_length = 0 then [''No jobs in queue'']
                          else if queue_length < 5 then [''Short queue'']
                          else [str_int queue_length @ '' jobs in queue'']);
              reasons2 = (if truthy (dict_get backend_info ''simulator'' (PBool False))
                          then reasons1 @ [''Simulator (good for testing)''] else reasons1);
              qubits = dict_get backend_info ''qubits'' (PInt 0);
              reasons3 = (case as_int qubits of
                            Some q \<Rightarrow> if q > 10 then reasons2 @ [''High qubit count''] else reasons2
                          | None \<Rightarrow> reasons2)
          in Inr (join '', '' reasons3))"

record recommendation =
  rec_name :: string
  rec_service_type :: pyval
  rec_qubits :: pyval
  rec_queue_length :: pyval
  rec_score :: real
  recommendation_reason :: string

text \<open>
  The loop of \<open>get_recommendations\<close> over \<open>backend_status_cache.items()\<close>: a backend
  whose \<open>operational\<close> is missing or false is skipped; the first exception ends the loop.
\<close>

fun candidates :: "(string \<times> backend_info) list \<Rightarrow> py_error + recommendation list" where
  "candidates [] = Inr []"
| "candidates ((backend_name, backend_info) # rest) =
     (if \<not> truthy (dict_get backend_info ''operational'' (PBool False)) then candidates rest
      else case calculate_backend_score backend_name backend_info of
             Inl err \<Rightarrow> Inl err
           | Inr score \<Rightarrow>
               (case get_recommendation_reason backend_name backend_info score of
                  Inl err \<Rightarrow> Inl err
                | Inr reason \<Rightarrow>
                    (case candidates rest of
                       Inl err \<Rightarrow> Inl err
                     | Inr recs \<Rightarrow>
                         Inr (\<lparr> rec_name = backend_name,
                                 rec_service_type = dict_get backend_info ''service_type'' (PStr ''unknown''),
                                 rec_qubits = dict_get backend_info ''qubits'' (PStr ''Unknown''),
                                 rec_queue_length = dict_get backend_info ''pending_jobs'' (PInt 0),
                                 rec_score = score,
                                 recommendation_reason = reason \<rparr> # recs))))"

text \<open>\<open>get_recommendations(user_id, backend_status_cache)\<close>.\<close>

definition get_recommendations ::
  "string \<Rightarrow> (string \<times> backend_info) list \<Rightarrow> py_error + recommendation list"
where
  "get_recommendations user_id backend_status_cache =
     (case candidates backend_status_cache of
        Inl err \<Rightarrow> Inl err
      | Inr recommendations \<Rightarrow> Inr (take 3 (sort_desc rec_score recommendations)))"



section \<open>utils/notification\_manager.py\<close>

record notification =
  n_user_id :: string
  n_title :: string
  n_message :: string
  n_timestamp :: string
  n_job_info :: "(string \<times> jval) list option"
  n_read :: bool

text \<open>
  The manager: the configured webhook, the per-user log \<open>self.notifications\<close>, and the
  messages handed to \<open>send_slack_notification\<close> so far (title, message, job info), which
  catches every exception of its own.
\<close>

record manager =
  slack_webhook :: "string option"
  notifications :: "(string \<times> notification list) list"
  slack_posts :: "(string \<times> string \<times> (string \<times> jval) list) list"

text \<open>
  \<open>send_notification(user_id, title, message, job_info=None)\<close>; \<open>now\<close> is the reading
  of \<open>datetime.now().isoformat()\<close>. The Slack message goes out when the webhook is set
  and non-empty and \<open>job_info\<close> is a non-empty dictionary.
\<close>

definition send_notification ::
  "string \<Rightarrow> manager \<Rightarrow> string \<Rightarrow> string \<Rightarrow> string \<Rightarrow> (string \<times> jval) list option \<Rightarrow> manager"
where
  "send_notification now m user_id title message job_info =
     (let notification = \<lparr> n_user_id = user_id, n_title = title, n_message = message,
                            n_timestamp = now, n_job_info = job_info, n_read = False \<rparr>;
          d1 = (if map_of (notifications m) user_id = None
                then AList.update user_id [] (notifications m) else notifications m);
          log = dict_get d1 user_id [] @ [notification];
          d2 = AList.update user_id log d1;
          d3 = (if length log > 100 then AList.update user_id (last_n 100 log) d2 else d2);
          webhook_set = (case slack_webhook m of None \<Rightarrow> False | Some w \<Rightarrow> w \<noteq> [])
      in m\<lparr> notifications := d3,
             slack_posts := (case job_info of
                               None \<Rightarrow> slack_posts m
                             | Some info \<Rightarrow>
                                 if webhook_set \<and> info \<noteq> []
                                 then slack_posts m @ [(title, message, info)]
                                 else slack_posts m) \<rparr>)"

text \<open>\<open>get_user_notifications(user_id, unread_only=False)\<close>.\<close>

definition get_user_notifications :: "manager \<Rightarrow> string \<Rightarrow> bool \<Rightarrow> notification list" where
  "get_user_notifications m user_id unread_only =
     (let user_notifications = dict_get (notifications m) user_id [] in
      if unread_only then filter (\<lambda>n. \<not> n_read n) user_notifications
      else user_notifications)"

text \<open>A sequence of \<open>send_notification\<close> calls, each with its clock reading.\<close>

record sending =
  sn_now :: string
  sn_user_id :: string
  sn_title :: string
  sn_message :: string
  sn_job_info :: "(string \<times> jval) list option"

definition send_all :: "manager \<Rightarrow> sending list \<Rightarrow> manager" where
  "send_all m ss =
     foldl (\<lambda>m s. send_notification (sn_now s) m (sn_user_id s) (sn_title s) (sn_message s)
                     (sn_job_info s)) m ss"

text \<open>The notifications that the calls of a sequence build for one user, in call order.\<close>

definition sent_to :: "string \<Rightarrow> sending list \<Rightarrow> notification list" where
  "sent_to u ss =
     map (\<lambda>s. \<lparr> n_user_id = sn_user_id s, n_title = sn_title s, n_message = sn_message s,
                 n_timestamp = sn_now s, n_job_info = sn_job_info s, n_read = False \<rparr>)
       (filter (\<lambda>s. sn_user_id s = u) ss)"



section \<open>Notions of the specification\<close>





section \<open>Concrete inputs\<close>

text \<open>
  A short session on the history store: two jobs, a repeated call with identical
  arguments, and reads in between.
\<close>

definition demo_calls :: "analyzer_call list" where
  "demo_calls =
     [RecordJobEvent ''2024-01-01T10:00:00'' ''job1'' ''submitted'' None None,
      RecordJobEvent ''2024-01-01T10:00:05'' ''job2'' ''queued'' None None,
      GetAnalytics None,
      RecordJobEvent ''2024-01-01T10:00:09'' ''job1'' ''submitted'' (Some ''2024-01-01T10:00:00'') None,
      GetJobTimeline ''job1'',
      RecordJobEvent ''2024-01-01T10:01:00'' ''job1'' ''running'' None
        (Some [(''backend'', JStr ''ibm_q'')])]"

text \<open>
  A history store with one job whose only event is a status change to \<open>COMPLETED\<close>,
  recorded for the user \<open>alice\<close>; and the same with the status \<open>RUNNING\<close>.
\<close>

definition completed_history :: history where
  "completed_history =
     record_job_event ''2024-01-01T10:05:00'' [] ''job1'' ''status_change'' None
       (Some [(''status'', JStr ''COMPLETED''), (''user_id'', JStr ''alice'')])"

definition running_history :: history where
  "running_history =
     record_job_event ''2024-01-01T10:05:00'' [] ''job1'' ''status_change'' None
       (Some [(''status'', JStr ''RUNNING''), (''user_id'', JStr ''alice'')])"

text \<open>
  The queue samples of the end-to-end scenario of the specification: two completions on
  backend \<open>A\<close> with queue times 30 and 90 and run times 10 and 20. And a store with a
  single completion of a given queue time.
\<close>

definition demo_queue :: queue_history where
  "demo_queue =
     record_job_completion ''2024-01-01T10:01:00''
       (record_job_completion ''2024-01-01T10:00:00'' [] ''job1'' ''A'' 30 10)
       ''job2'' ''A'' 90 20"

definition one_sample :: "real \<Rightarrow> queue_history" where
  "one_sample qt = record_job_completion ''2024-01-01T10:00:00'' [] ''job1'' ''A'' qt 10"

text \<open>The \<open>i\<close>-th of a run of completions on one backend, told apart by the job id.\<close>

definition demo_completion :: "nat \<Rightarrow> completion" where
  "demo_completion i =
     \<lparr> c_now = ''2024-01-01T10:00:00'', c_job_id = str_nat i, c_backend = ''ibm_q'',
       c_queue_time = 30, c_run_time = 10 \<rparr>"

text \<open>Snapshot entries: a hardware backend, and a cache with five backends.\<close>

definition demo_backend :: backend_info where
  "demo_backend =
     [(''operational'', PBool True), (''pending_jobs'', PInt 10), (''qubits'', PInt 20),
      (''service_type'', PStr ''public''), (''simulator'', PBool False)]"

definition demo_cache :: "(string \<times> backend_info) list" where
  "demo_cache =
     [(''ibm_q'', demo_backend),
      (''sim'', [(''operational'', PBool True), (''pending_jobs'', PInt 0), (''qubits'', PInt 5),
                 (''service_type'', PStr ''public''), (''simulator'', PBool True)]),
      (''down'', [(''operational'', PBool False), (''pending_jobs'', PInt 0), (''qubits'', PInt 127),
                  (''service_type'', PStr ''private''), (''simulator'', PBool False)]),
      (''busy'', [(''operational'', PBool True), (''pending_jobs'', PInt 40), (''qubits'', PInt 7),
                  (''service_type'', PStr ''public''), (''simulator'', PBool False)]),
      (''big'', [(''operational'', PBool True), (''pending_jobs'', PInt 3), (''qubits'', PInt 127),
                 (''service_type'', PStr ''private''), (''simulator'', PBool False)])]"

text \<open>
  Operational entries with the string \<open>"Unknown"\<close> in place of a number: for the
  qubit count only, and for both the qubit count and the queue length.
\<close>

definition unknown_qubits :: backend_info where
  "unknown_qubits =
     [(''operational'', PBool True), (''pending_jobs'', PInt 7), (''qubits'', PStr ''Unknown''),
      (''service_type'', PStr ''public''), (''simulator'', PBool True)]"

definition unknown_queue :: backend_info where
  "unknown_queue =
     [(''operational'', PBool True), (''pending_jobs'', PStr ''Unknown''),
      (''qubits'', PStr ''Unknown''), (''service_type'', PStr ''public''),
      (''simulator'', PBool False)]"

text \<open>A manager with no webhook and an empty log, and the \<open>i\<close>-th of a run of sendings.\<close>

definition demo_manager :: manager where
  "demo_manager = \<lparr> slack_webhook = None, notifications = [], slack_posts = [] \<rparr>"

definition demo_sending :: "nat \<Rightarrow> sending" where
  "demo_sending i =
     \<lparr> sn_now = ''2024-01-01T10:00:00'', sn_user_id = ''alice'', sn_title = ''Job finished'',
       sn_message = str_nat i, sn_job_info = None \<rparr>"


section \<open>Dictionaries and slices\<close>

lemma dict_get_update:
  "dict_get (AList.update k v al) k' d = (if k' = k then v else dict_get al k' d)"
  by (simp add: dict_get_def update_conv')

lemma dict_get_Nil: "dict_get [] k d = d"
  by (simp add: dict_get_def)

lemma dict_get_absent: "map_of al k = None \<Longrightarrow> dict_get al k d = d"
  by (simp add: dict_get_def)


lemma last_n_short: "length xs \<le> n \<Longrightarrow> last_n n xs = xs"
  by (simp add: last_n_def)

lemma length_last_n: "length (last_n n xs) = min n (length xs)"
  by (simp add: last_n_def)

lemma last_n_snoc:
  assumes "0 < n"
  shows "last_n n (last_n n xs @ [x]) = last_n n (xs @ [x])"
proof (cases "length xs \<le> n")
  case True
  then show ?thesis by (simp add: last_n_def)
next
  case False
  then have a: "length xs - n + n = length xs"
    and b: "Suc (length xs) - n = Suc (length xs - n)"
    by arith+
  from False assms show ?thesis
    by (simp add: last_n_def a b)
qed

lemma last_n_append_long: "n \<le> length ys \<Longrightarrow> last_n n (xs @ ys) = last_n n ys"
  by (simp add: last_n_def)


section \<open>The event history store\<close>

lemma timeline_record_job_event:
  "get_job_timeline (record_job_event now h job_id event_type timestamp data) j =
     (if j = job_id then get_job_timeline h job_id @ [make_event now event_type timestamp data]
      else get_job_timeline h j)"
  by (simp add: record_job_event_def get_job_timeline_def dict_get_update Let_def dict_get_absent)

lemma record_job_event_distinct:
  "distinct (map fst h) \<Longrightarrow>
     distinct (map fst (record_job_event now h job_id event_type timestamp data))"
  by (simp add: record_job_event_def Let_def distinct_update)

lemma timeline_analyzer_step:
  "get_job_timeline (analyzer_step h c) j = get_job_timeline h j @ recorded_events j [c]"
  by (cases c) (simp_all add: timeline_record_job_event)

lemma recorded_events_append:
  "recorded_events j (xs @ ys) = recorded_events j xs @ recorded_events j ys"
  by (induction j xs rule: recorded_events.induct) simp_all

lemma timeline_run_calls:
  "get_job_timeline (run_calls h calls) j = get_job_timeline h j @ recorded_events j calls"
proof (induction calls rule: rev_induct)
  case Nil
  show ?case by (simp add: run_calls_def)
next
  case (snoc c calls)
  have "run_calls h (calls @ [c]) = analyzer_step (run_calls h calls) c"
    by (simp add: run_calls_def)
  then show ?case
    using snoc by (simp add: timeline_analyzer_step recorded_events_append)
qed

text \<open>
  C3. After any sequence of calls on the store, the timeline of a job is what the store
  held for it before, followed by exactly the events that the \<open>record_job_event\<close> calls
  for this job appended, in call order and with repetitions; calls for other jobs and the
  two reading methods change nothing of it. Started from the empty store the timeline is
  exactly the recorded events, and a job with no recorded event, or one that is no key of
  the store, has the empty timeline. \<open>get_job_timeline\<close> has no failing branch.
\<close>

theorem get_timeline_order:
  "get_job_timeline (run_calls h calls) j = get_job_timeline h j @ recorded_events j calls
   \<and> get_job_timeline (run_calls [] calls) j = recorded_events j calls
   \<and> (recorded_events j calls = [] \<longrightarrow> get_job_timeline (run_calls [] calls) j = [])
   \<and> (map_of h j = None \<longrightarrow> get_job_timeline h j = [])"
proof -
  have empty: "get_job_timeline [] j = []"
    by (simp add: get_job_timeline_def dict_get_def)
  have unknown: "map_of h j = None \<longrightarrow> get_job_timeline h j = []"
    by (simp add: get_job_timeline_def dict_get_def)
  from empty unknown show ?thesis
    by (simp add: timeline_run_calls)
qed

theorem get_timeline_order_witness:
  "get_job_timeline (run_calls [] demo_calls) ''job1'' =
     [\<lparr>ev_type = ''submitted'', ev_timestamp = ''2024-01-01T10:00:00'', ev_data = []\<rparr>,
      \<lparr>ev_type = ''submitted'', ev_timestamp = ''2024-01-01T10:00:00'', ev_data = []\<rparr>,
      \<lparr>ev_type = ''running'', ev_timestamp = ''2024-01-01T10:01:00'',
        ev_data = [(''backend'', JStr ''ibm_q'')]\<rparr>]
   \<and> recorded_events ''job9'' demo_calls = []
   \<and> get_job_timeline (run_calls [] demo_calls) ''job9'' = []
   \<and> map_of (run_calls [] demo_calls) ''job9'' = None"
proof -
  have absent: "map_of (run_calls [] demo_calls) ''job9'' = None"
    by (simp add: demo_calls_def run_calls_def record_job_event_def dict_get_def)
  have none: "recorded_events ''job9'' demo_calls = []"
    by (simp add: demo_calls_def)
  have some: "recorded_events ''job1'' demo_calls =
     [\<lparr>ev_type = ''submitted'', ev_timestamp = ''2024-01-01T10:00:00'', ev_data = []\<rparr>,
      \<lparr>ev_type = ''submitted'', ev_timestamp = ''2024-01-01T10:00:00'', ev_data = []\<rparr>,
      \<lparr>ev_type = ''running'', ev_timestamp = ''2024-01-01T10:01:00'',
        ev_data = [(''backend'', JStr ''ibm_q'')]\<rparr>]"
    by (simp add: demo_calls_def make_event_def)
  from absent none some
    get_timeline_order [of "[]" demo_calls "''job1''"]
    get_timeline_order [of "run_calls [] demo_calls" "[]" "''job9''"]
  show ?thesis
    by (simp add: run_calls_def)
qed

subsection \<open>The analytics of the store\<close>

lemma completed_history_eq:
  "completed_history =
     [(''job1'', [\<lparr>ev_type = ''status_change'', ev_timestamp = ''2024-01-01T10:05:00'',
                   ev_data = [(''status'', JStr ''COMPLETED''), (''user_id'', JStr ''alice'')]\<rparr>])]"
  by (simp add: completed_history_def record_job_event_def make_event_def dict_get_def)

lemma running_history_eq:
  "running_history =
     [(''job1'', [\<lparr>ev_type = ''status_change'', ev_timestamp = ''2024-01-01T10:05:00'',
                   ev_data = [(''status'', JStr ''RUNNING''), (''user_id'', JStr ''alice'')]\<rparr>])]"
  by (simp add: running_history_def record_job_event_def make_event_def dict_get_def)

text \<open>With no completed job the method returns, and both averages are the zeros it starts from.\<close>

lemma get_analytics_running:
  "get_analytics iso_gap running_history (Some ''alice'') =
     Inr \<lparr> total_jobs = 1, jobs_by_status = [(JStr ''RUNNING'', 1)], jobs_by_backend = [],
            average_queue_time = 0, success_rate = 0,
            recent_activity = [\<lparr> act_job_id = ''job1'', act_last_event = ''status_change'',
                                  act_timestamp = ''2024-01-01T10:05:00'' \<rparr>] \<rparr>"
  by (simp add: running_history_eq get_analytics_def job_step_def count_status_def
      count_backend_def add_queue_time_def add_activity_def count_key_def dict_get_def
      sort_desc_def)

text \<open>
  C1. The claim is that \<open>get_analytics\<close> returns an analytics record for every history,
  in particular for jobs whose status change marks them \<open>COMPLETED\<close>. On the store that
  holds one such job the method raises \<open>NameError\<close> instead, with and without the user
  filter: the loop counts the job as completed, and the branch for a positive count reads
  the unbound name \<open>completed_jops\<close>.
\<close>

theorem get_analytics_completed_raises:
  "get_analytics iso_gap completed_history None = Inl NameError
   \<and> get_analytics iso_gap completed_history (Some ''alice'') = Inl NameError"
  by (simp add: completed_history_eq get_analytics_def job_step_def count_status_def
      count_backend_def add_queue_time_def add_activity_def count_key_def dict_get_def)


section \<open>The queue predictor\<close>

subsection \<open>The cap of 1000 samples\<close>

lemma samples_record_job_completion:
  "dict_get (record_job_completion now h job_id b qt rt) b' [] =
     (if b' = b
      then last_n 1000 (dict_get h b [] @
             [\<lparr> s_timestamp = now, s_job_id = job_id, queue_time = qt, run_time = rt \<rparr>])
      else dict_get h b' [])"
  by (simp add: record_job_completion_def Let_def dict_get_update dict_get_absent last_n_short)

lemma samples_for_snoc:
  "samples_for b (cs @ [c]) =
     (if c_backend c = b
      then samples_for b cs @ [\<lparr> s_timestamp = c_now c, s_job_id = c_job_id c,
                                  queue_time = c_queue_time c, run_time = c_run_time c \<rparr>]
      else samples_for b cs)"
  by (simp add: samples_for_def)

lemma record_all_snoc:
  "record_all h (cs @ [c]) =
     record_job_completion (c_now c) (record_all h cs) (c_job_id c) (c_backend c)
       (c_queue_time c) (c_run_time c)"
  by (simp add: record_all_def)

text \<open>
  The list of a backend after a sequence of calls: untouched when no call was for it,
  else the last 1000 of the old list followed by the new samples.
\<close>

lemma samples_record_all:
  "dict_get (record_all h cs) b [] =
     (if samples_for b cs = [] then dict_get h b []
      else last_n 1000 (dict_get h b [] @ samples_for b cs))"
proof (induction cs rule: rev_induct)
  case Nil
  show ?case by (simp add: record_all_def samples_for_def)
next
  case (snoc c cs)
  show ?case
  proof (cases "c_backend c = b")
    case False
    with snoc show ?thesis
      by (simp add: record_all_snoc samples_record_job_completion samples_for_snoc)
  next
    case True
    with snoc show ?thesis
      by (simp add: record_all_snoc samples_record_job_completion samples_for_snoc last_n_snoc)
  qed
qed

lemma samples_for_demo:
  "samples_for ''ibm_q'' (map demo_completion xs) =
     map (\<lambda>i. \<lparr> s_timestamp = ''2024-01-01T10:00:00'', s_job_id = str_nat i,
                 queue_time = 30, run_time = 10 \<rparr>) xs"
  by (induction xs) (simp_all add: samples_for_def demo_completion_def)

text \<open>
  C7. Let a sequence of \<open>record_job_completion\<close> calls run on a store. For a backend
  whose list had at most 1000 entries at the start (the empty store among them), or that
  at least one call was for, the list has at most 1000 entries afterwards and is the last
  1000 of the old entries followed by the samples of the calls, in call order. After more
  than 1000 calls for the backend the list has exactly 1000 entries, the 1000 most
  recently recorded: the oldest went first.
\<close>

theorem record_job_completion_cap:
  "(length (dict_get h b []) \<le> 1000 \<or> samples_for b cs \<noteq> [] \<longrightarrow>
      length (dict_get (record_all h cs) b []) \<le> 1000
      \<and> dict_get (record_all h cs) b [] = last_n 1000 (dict_get h b [] @ samples_for b cs))
   \<and> (1000 < length (samples_for b cs) \<longrightarrow>
        length (dict_get (record_all h cs) b []) = 1000
        \<and> dict_get (record_all h cs) b [] = last_n 1000 (samples_for b cs))"
proof -
  have eq: "dict_get (record_all h cs) b [] = last_n 1000 (dict_get h b [] @ samples_for b cs)"
    if "length (dict_get h b []) \<le> 1000 \<or> samples_for b cs \<noteq> []"
    using that by (auto simp: samples_record_all last_n_short)
  have len: "length (dict_get (record_all h cs) b []) \<le> 1000"
    if "length (dict_get h b []) \<le> 1000 \<or> samples_for b cs \<noteq> []"
    by (simp add: eq [OF that] length_last_n)
  have long: "length (dict_get (record_all h cs) b []) = 1000
        \<and> dict_get (record_all h cs) b [] = last_n 1000 (samples_for b cs)"
    if "1000 < length (samples_for b cs)"
  proof -
    from that have "samples_for b cs \<noteq> []" by auto
    then have "dict_get (record_all h cs) b [] =
        last_n 1000 (dict_get h b [] @ samples_for b cs)"
      by (simp add: eq)
    with that show ?thesis
      by (simp add: length_last_n last_n_append_long)
  qed
  from eq len long show ?thesis by blast
qed

theorem record_job_completion_cap_witness:
  "length (dict_get ([] :: queue_history) ''ibm_q'' []) \<le> 1000
   \<and> length (samples_for ''ibm_q'' (map demo_completion [0..<1001])) = 1001
   \<and> length (dict_get (record_all [] (map demo_completion [0..<1001])) ''ibm_q'' []) = 1000
   \<and> dict_get (record_all [] (map demo_completion [0..<1001])) ''ibm_q'' [] =
       map (\<lambda>i. \<lparr> s_timestamp = ''2024-01-01T10:00:00'', s_job_id = str_nat i,
                   queue_time = 30, run_time = 10 \<rparr>) [1..<1001]"
proof -
  have h: "length (dict_get ([] :: queue_history) ''ibm_q'' []) \<le> 1000"
    by (simp add: dict_get_def)
  have n: "length (samples_for ''ibm_q'' (map demo_completion [0..<1001])) = 1001"
    by (simp add: samples_for_demo)
  have l: "last_n 1000 (samples_for ''ibm_q'' (map demo_completion [0..<1001])) =
       map (\<lambda>i. \<lparr> s_timestamp = ''2024-01-01T10:00:00'', s_job_id = str_nat i,
                   queue_time = 30, run_time = 10 \<rparr>) [1..<1001]"
    by (simp add: samples_for_demo last_n_def drop_map)
  from h n l record_job_completion_cap [of "[]" "''ibm_q''" "map demo_completion [0..<1001]"]
  show ?thesis by (simp add: dict_get_def)
qed


subsection \<open>Means of positive samples\<close>







lemma demo_queue_eq:
  "demo_queue =
     [(''A'', [\<lparr>s_timestamp = ''2024-01-01T10:00:00'', s_job_id = ''job1'',
                queue_time = 30, run_time = 10\<rparr>,
              \<lparr>s_timestamp = ''2024-01-01T10:01:00'', s_job_id = ''job2'',
                queue_time = 90, run_time = 20\<rparr>])]"
  by (simp add: demo_queue_def record_job_completion_def dict_get_def Let_def)

lemma one_sample_eq:
  "one_sample qt =
     [(''A'', [\<lparr>s_timestamp = ''2024-01-01T10:00:00'', s_job_id = ''job1'',
                queue_time = qt, run_time = 10\<rparr>])]"
  by (simp add: one_sample_def record_job_completion_def dict_get_def Let_def)

subsection \<open>estimate\_start\_time\<close>








subsection \<open>estimate\_average\_wait\<close>





text \<open>The thresholds on concrete stores, among them the four examples of the specification.\<close>

lemma estimate_average_wait_examples:
  "estimate_average_wait (one_sample 59) ''A'' = ''59 seconds''"
  "estimate_average_wait (one_sample 60) ''A'' = ''1 minutes''"
  "estimate_average_wait (one_sample 3599) ''A'' = ''59 minutes''"
  "estimate_average_wait (one_sample 3600) ''A'' = ''1 hours''"
  "estimate_average_wait (one_sample (119 / 2)) ''A'' = ''59 seconds''"
  "estimate_average_wait (one_sample 0) ''A'' = ''Unknown''"
  "estimate_average_wait (one_sample 59) ''B'' = ''Unknown''"
  "estimate_average_wait demo_queue ''A'' = ''1 minutes''"
  by (simp_all add: one_sample_eq demo_queue_eq estimate_average_wait_def py_int_def
      str_int_def str_nat.simps)




section \<open>The recommendation scorer\<close>

subsection \<open>The score\<close>



subsection \<open>Monotonicity and ranking\<close>











text \<open>The ranking of the five backends: the one that is down is left out, ties keep the input order.\<close>

lemma demo_recommendations:
  "map_sum id (map (\<lambda>r. (rec_name r, rec_score r, recommendation_reason r)))
     (get_recommendations ''alice'' demo_cache) =
   Inr [(''sim'', 100, ''No jobs in queue, Simulator (good for testing)''),
        (''big'', 100, ''Short queue, High qubit count''),
        (''ibm_q'', 84, ''10 jobs in queue, High qubit count'')]"
  by (simp add: demo_cache_def demo_backend_def get_recommendations_def
      calculate_backend_score_def get_recommendation_reason_def dict_get_def sort_desc_def
      str_int_def str_nat.simps)



subsection \<open>A qubit count that is no integer\<close>

lemma starts_with_set: "starts_with s p \<Longrightarrow> set p \<subseteq> set s"
  by (induction s p rule: starts_with.induct) auto

lemma contains_set: "contains s sub \<Longrightarrow> set sub \<subseteq> set s"
proof (induction s sub rule: contains.induct)
  case (1 sub)
  then show ?case by simp
next
  case (2 c cs sub)
  from "2.prems" have "starts_with (c # cs) sub \<or> contains cs sub" by simp
  then show ?case
  proof
    assume "starts_with (c # cs) sub"
    then show ?thesis by (rule starts_with_set)
  next
    assume "contains cs sub"
    then have "set sub \<subseteq> set cs" by (rule "2.IH")
    then show ?thesis by auto
  qed
qed

lemma set_join: "set (join sep xs) \<subseteq> set sep \<union> \<Union> (set ` set xs)"
  by (induction sep xs rule: join.induct) auto

lemma set_str_nat: "set (str_nat n) \<subseteq> set ''0123456789''"
proof (induction n rule: str_nat.induct)
  case (1 n)
  have d: "''0123456789'' ! k \<in> set ''0123456789''" if "k < 10" for k
    using that by (intro nth_mem) simp
  show ?case
  proof (cases "n < 10")
    case True
    with d [of n] show ?thesis by (subst str_nat.simps) simp
  next
    case False
    have "n mod 10 < 10" by simp
    from d [OF this] 1 False show ?thesis by (subst str_nat.simps) simp
  qed
qed

lemma H_not_in_str_int: "CHR ''H'' \<notin> set (str_int i)"
  using set_str_nat [of "nat i"] set_str_nat [of "nat (- i)"]
  by (auto simp: str_int_def)

text \<open>
  Without the qubit reason no part of the text has a capital H: the queue reasons, the
  simulator reason and the separator have none, and a number is digits and a sign.
\<close>

lemma reason_without_qubits:
  assumes "as_int (dict_get info ''pending_jobs'' (PInt 0)) = Some p"
    and "map_of info ''qubits'' = Some v" and "as_int v = None"
  shows "\<exists>r. get_recommendation_reason n info score = Inr r \<and> CHR ''H'' \<notin> set r"
proof -
  define reasons1 where "reasons1 =
     (if p = 0 then [''No jobs in queue'']
      else if p < 5 then [''Short queue'']
      else [str_int p @ '' jobs in queue''])"
  define reasons2 where "reasons2 =
     (if truthy (dict_get info ''simulator'' (PBool False))
      then reasons1 @ [''Simulator (good for testing)''] else reasons1)"
  have r: "get_recommendation_reason n info score = Inr (join '', '' reasons2)"
    using assms
    by (simp add: get_recommendation_reason_def Let_def reasons1_def reasons2_def dict_get_def)
  have "\<forall>x \<in> set reasons1. CHR ''H'' \<notin> set x"
    using H_not_in_str_int [of p] by (simp add: reasons1_def)
  then have "\<forall>x \<in> set reasons2. CHR ''H'' \<notin> set x"
    by (simp add: reasons2_def)
  with set_join [of "'', ''" reasons2] have "CHR ''H'' \<notin> set (join '', '' reasons2)"
    by auto
  with r show ?thesis by simp
qed

text \<open>
  C10, as amended. For every snapshot entry whose \<open>pending_jobs\<close> field is an integer
  \<open>p\<close> (or missing, which counts as 0) and whose \<open>qubits\<close> field is present and no
  integer, \<open>calculate_backend_score\<close> does not raise: it returns
  \<open>100 - min(p * 2, 50) + (10 if simulator else 0)\<close> clamped to the interval from 0 to
  100, the score without any qubit bonus; and \<open>get_recommendation_reason\<close> returns a text
  in which \<open>High qubit count\<close> does not occur.
\<close>

theorem non_integer_qubits_amended:
  assumes "as_int (dict_get info ''pending_jobs'' (PInt 0)) = Some p"
    and "map_of info ''qubits'' = Some v" and "as_int v = None"
  shows "calculate_backend_score n info =
           Inr (max 0 (min 100 (100 - real_of_int (min (p * 2) 50)
                  + (if truthy (dict_get info ''simulator'' (PBool False)) then 10 else 0))))
       \<and> (\<exists>s. calculate_backend_score n info = Inr s \<and> 0 \<le> s \<and> s \<le> 100)
       \<and> (\<exists>r. get_recommendation_reason n info score = Inr r
              \<and> \<not> contains r ''High qubit count'')"
proof -
  have s: "calculate_backend_score n info =
           Inr (max 0 (min 100 (100 - real_of_int (min (p * 2) 50)
                  + (if truthy (dict_get info ''simulator'' (PBool False)) then 10 else 0))))"
    using assms
    by (simp add: calculate_backend_score_def Let_def dict_get_def min.commute)
  have b: "\<exists>s. calculate_backend_score n info = Inr s \<and> 0 \<le> s \<and> s \<le> 100"
    by (simp add: s)
  from reason_without_qubits [OF assms] obtain r
    where r: "get_recommendation_reason n info score = Inr r" and h: "CHR ''H'' \<notin> set r"
    by blast
  have "\<not> contains r ''High qubit count''"
  proof
    assume "contains r ''High qubit count''"
    then have "set ''High qubit count'' \<subseteq> set r" by (rule contains_set)
    with h show False by simp
  qed
  with s b r show ?thesis by blast
qed

theorem non_integer_qubits_amended_witness:
  "as_int (dict_get unknown_qubits ''pending_jobs'' (PInt 0)) = Some 7
   \<and> map_of unknown_qubits ''qubits'' = Some (PStr ''Unknown'')
   \<and> as_int (PStr ''Unknown'') = None
   \<and> calculate_backend_score ''ibm_q'' unknown_qubits = Inr 96
   \<and> get_recommendation_reason ''ibm_q'' unknown_qubits 96 =
        Inr ''7 jobs in queue, Simulator (good for testing)''
   \<and> \<not> contains ''7 jobs in queue, Simulator (good for testing)'' ''High qubit count''"
proof -
  have a: "as_int (dict_get unknown_qubits ''pending_jobs'' (PInt 0)) = Some 7"
    and b: "map_of unknown_qubits ''qubits'' = Some (PStr ''Unknown'')"
    and c: "as_int (PStr ''Unknown'') = None"
    by (simp_all add: unknown_qubits_def dict_get_def)
  have r: "get_recommendation_reason ''ibm_q'' unknown_qubits 96 =
        Inr ''7 jobs in queue, Simulator (good for testing)''"
    by (simp add: unknown_qubits_def get_recommendation_reason_def dict_get_def str_int_def
        str_nat.simps)
  have t: "truthy (dict_get unknown_qubits ''simulator'' (PBool False))"
    by (simp add: unknown_qubits_def dict_get_def)
  from a b c r t non_integer_qubits_amended [OF a b c, of "''ibm_q''" 96]
  show ?thesis by simp
qed

text \<open>
  The claim as stated fails on an operational entry whose qubit count is the string
  \<open>"Unknown"\<close> and whose queue length is that string too: the score raises
  \<open>TypeError\<close>, and so does \<open>get_recommendations\<close> on a snapshot with this entry.
\<close>

theorem non_integer_qubits_counterexample:
  "map_of unknown_queue ''qubits'' = Some (PStr ''Unknown'')
   \<and> as_int (PStr ''Unknown'') = None
   \<and> truthy (dict_get unknown_queue ''operational'' (PBool False))
   \<and> calculate_backend_score ''ibm_q'' unknown_queue = Inl TypeError
   \<and> get_recommendations ''alice'' [(''ibm_q'', unknown_queue)] = Inl TypeError"
  by (simp add: unknown_queue_def calculate_backend_score_def dict_get_def
      get_recommendations_def)


section \<open>The notification log\<close>

lemma log_send_notification:
  "dict_get (notifications (send_notification now m user_id title message job_info)) u [] =
     (if u = user_id
      then last_n 100 (dict_get (notifications m) user_id [] @
             [\<lparr> n_user_id = user_id, n_title = title, n_message = message,
                 n_timestamp = now, n_job_info = job_info, n_read = False \<rparr>])
      else dict_get (notifications m) u [])"
  by (simp add: send_notification_def Let_def dict_get_update dict_get_absent last_n_short)

lemma sent_to_snoc:
  "sent_to u (ss @ [s]) =
     (if sn_user_id s = u
      then sent_to u ss @ [\<lparr> n_user_id = sn_user_id s, n_title = sn_title s,
                              n_message = sn_message s, n_timestamp = sn_now s,
                              n_job_info = sn_job_info s, n_read = False \<rparr>]
      else sent_to u ss)"
  by (simp add: sent_to_def)

lemma send_all_snoc:
  "send_all m (ss @ [s]) =
     send_notification (sn_now s) (send_all m ss) (sn_user_id s) (sn_title s) (sn_message s)
       (sn_job_info s)"
  by (simp add: send_all_def)

lemma log_send_all:
  "dict_get (notifications (send_all m ss)) u [] =
     (if sent_to u ss = [] then dict_get (notifications m) u []
      else last_n 100 (dict_get (notifications m) u [] @ sent_to u ss))"
proof (induction ss rule: rev_induct)
  case Nil
  show ?case by (simp add: send_all_def sent_to_def)
next
  case (snoc s ss)
  show ?case
  proof (cases "sn_user_id s = u")
    case False
    with snoc show ?thesis
      by (simp add: send_all_snoc log_send_notification sent_to_snoc)
  next
    case True
    with snoc show ?thesis
      by (simp add: send_all_snoc log_send_notification sent_to_snoc last_n_snoc)
  qed
qed

lemma sent_to_demo:
  "sent_to ''alice'' (map demo_sending xs) =
     map (\<lambda>i. \<lparr> n_user_id = ''alice'', n_title = ''Job finished'', n_message = str_nat i,
                 n_timestamp = ''2024-01-01T10:00:00'', n_job_info = None, n_read = False \<rparr>) xs"
  by (induction xs) (simp_all add: sent_to_def demo_sending_def)

text \<open>
  C9. Let a sequence of \<open>send_notification\<close> calls run on a manager. For a user whose
  log had at most 100 entries at the start (the empty log among them), or to whom at
  least one notification of the sequence went, the log that \<open>get_user_notifications\<close>
  reads has at most 100 entries afterwards and is the last 100 of the old entries
  followed by the notifications sent, in call order; once 100 or more were sent it is
  the 100 most recently sent, the oldest having gone first.
\<close>

theorem send_notification_cap:
  "(length (get_user_notifications m u False) \<le> 100 \<or> sent_to u ss \<noteq> [] \<longrightarrow>
      length (get_user_notifications (send_all m ss) u False) \<le> 100
      \<and> get_user_notifications (send_all m ss) u False =
          last_n 100 (get_user_notifications m u False @ sent_to u ss))
   \<and> (100 \<le> length (sent_to u ss) \<longrightarrow>
        length (get_user_notifications (send_all m ss) u False) = 100
        \<and> get_user_notifications (send_all m ss) u False = last_n 100 (sent_to u ss))"
proof -
  have g: "get_user_notifications m' u False = dict_get (notifications m') u []" for m'
    by (simp add: get_user_notifications_def)
  have eq: "dict_get (notifications (send_all m ss)) u [] =
           last_n 100 (dict_get (notifications m) u [] @ sent_to u ss)"
    if "length (dict_get (notifications m) u []) \<le> 100 \<or> sent_to u ss \<noteq> []"
    using that by (auto simp: log_send_all last_n_short)
  have len: "length (dict_get (notifications (send_all m ss)) u []) \<le> 100"
    if "length (dict_get (notifications m) u []) \<le> 100 \<or> sent_to u ss \<noteq> []"
    by (simp add: eq [OF that] length_last_n)
  have long: "length (dict_get (notifications (send_all m ss)) u []) = 100
        \<and> dict_get (notifications (send_all m ss)) u [] = last_n 100 (sent_to u ss)"
    if "100 \<le> length (sent_to u ss)"
  proof -
    from that have "sent_to u ss \<noteq> []" by auto
    then have "dict_get (notifications (send_all m ss)) u [] =
        last_n 100 (dict_get (notifications m) u [] @ sent_to u ss)"
      by (simp add: eq)
    with that show ?thesis
      by (simp add: length_last_n last_n_append_long)
  qed
  from eq len long show ?thesis
    unfolding g by blast
qed

theorem send_notification_cap_witness:
  "length (get_user_notifications demo_manager ''alice'' False) \<le> 100
   \<and> length (sent_to ''alice'' (map demo_sending [0..<103])) = 103
   \<and> length (get_user_notifications (send_all demo_manager (map demo_sending [0..<103]))
        ''alice'' False) = 100
   \<and> get_user_notifications (send_all demo_manager (map demo_sending [0..<103])) ''alice'' False =
       map (\<lambda>i. \<lparr> n_user_id = ''alice'', n_title = ''Job finished'', n_message = str_nat i,
                   n_timestamp = ''2024-01-01T10:00:00'', n_job_info = None, n_read = False \<rparr>)
         [3..<103]"
proof -
  have h: "get_user_notifications demo_manager ''alice'' False = []"
    by (simp add: get_user_notifications_def dict_get_def demo_manager_def)
  have n: "length (sent_to ''alice'' (map demo_sending [0..<103])) = 103"
    by (simp add: sent_to_demo)
  have l: "last_n 100 (sent_to ''alice'' (map demo_sending [0..<103])) =
       map (\<lambda>i. \<lparr> n_user_id = ''alice'', n_title = ''Job finished'', n_message = str_nat i,
                   n_timestamp = ''2024-01-01T10:00:00'', n_job_info = None, n_read = False \<rparr>)
         [3..<103]"
    by (simp add: sent_to_demo last_n_def drop_map)
  from h n l send_notification_cap [of demo_manager "''alice''" "map demo_sending [0..<103]"]
  show ?thesis by simp
qed

end
